theory Spec2Isabelle
  imports Main "HOL-Library.AList"
begin

section \<open>Python strings\<close>

text \<open>
  A Python \<open>str\<close> is modelled as a \<open>string\<close>: a list of 8-bit characters, each read
  as the code point of the same number (U+0000 .. U+00FF). \<open>len\<close> is \<open>length\<close>,
  a slice \<open>v[:n]\<close> is \<open>take n v\<close>, and \<open>+\<close> on strings is \<open>@\<close>.
\<close>

abbreviation nl :: char where "nl \<equiv> CHR 0x0A"
abbreviation squote :: char where "squote \<equiv> CHR 0x27"
abbreviation dquote :: char where "dquote \<equiv> CHR 0x22"
abbreviation backslash :: char where "backslash \<equiv> CHR 0x5C"

text \<open>\<open>str.isspace\<close> on one character of the modelled range: the characters that
  \<open>str.split()\<close> treats as separators.\<close>

definition py_isspace :: "char \<Rightarrow> bool" where
  "py_isspace c = ((of_char c :: nat) \<in> set [9, 10, 11, 12, 13, 28, 29, 30, 31, 32, 133, 160])"

text \<open>\<open>v.split()\<close> with no argument: the maximal runs of non-space characters, in
  order; runs of separators produce no empty token. \<open>cur\<close> is the token being read.\<close>

fun py_split_from :: "string \<Rightarrow> string \<Rightarrow> string list" where
  "py_split_from cur [] = (if cur = [] then [] else [cur])"
| "py_split_from cur (c # cs) =
     (if py_isspace c
      then (if cur = [] then py_split_from [] cs else cur # py_split_from [] cs)
      else py_split_from (cur @ [c]) cs)"

definition py_split :: "string \<Rightarrow> string list" where
  "py_split v = py_split_from [] v"

text \<open>\<open>str.casefold\<close>: the ASCII capitals are lowered. Characters outside ASCII are
  left as they are; their folded forms are never a single ASCII letter, so the only
  comparison the source makes with a folded token (against \<open>r\<close> and \<open>h\<close>) is not
  affected.\<close>

definition casefold_char :: "char \<Rightarrow> char" where
  "casefold_char c =
     (case map_of (zip ''ABCDEFGHIJKLMNOPQRSTUVWXYZ'' ''abcdefghijklmnopqrstuvwxyz'') c of
        Some l \<Rightarrow> l
      | None \<Rightarrow> c)"

definition casefold :: "string \<Rightarrow> string" where
  "casefold s = map casefold_char s"

text \<open>\<open>str(n)\<close> for an integer: decimal digits, with a minus sign when negative.\<close>

definition digit_char :: "nat \<Rightarrow> char" where
  "digit_char d = ''0123456789abcdef'' ! d"

fun str_nat :: "nat \<Rightarrow> string" where
  "str_nat n = (if n < 10 then [digit_char n] else str_nat (n div 10) @ [digit_char (n mod 10)])"

declare str_nat.simps [simp del]


text \<open>\<open>repr\<close> of a string (the \<open>!r\<close> conversion of an f-string). Python encloses the
  text in single quotes, or in double quotes when the text has a single quote and no
  double quote; it escapes the backslash and the enclosing quote, writes tab, newline
  and carriage return as \<open>\t\<close>, \<open>\n\<close>, \<open>\r\<close>, and every other non-printable character
  of the modelled range as \<open>\xhh\<close>.\<close>

definition py_isprintable :: "char \<Rightarrow> bool" where
  "py_isprintable c =
     (let n = (of_char c :: nat) in (32 \<le> n \<and> n < 127) \<or> (161 \<le> n \<and> n \<noteq> 173))"

definition repr_char :: "char \<Rightarrow> char \<Rightarrow> string" where
  "repr_char quote c =
     (if c = quote \<or> c = backslash then [backslash, c]
      else if c = CHR 0x09 then [backslash, CHR ''t'']
      else if c = nl then [backslash, CHR ''n'']
      else if c = CHR 0x0D then [backslash, CHR ''r'']
      else if py_isprintable c then [c]
      else [backslash, CHR ''x'', digit_char (of_char c div 16), digit_char (of_char c mod 16)])"

definition repr_str :: "string \<Rightarrow> string" where
  "repr_str s =
     (let quote = (if squote \<in> set s \<and> dquote \<notin> set s then dquote else squote)
      in quote # concat (map (repr_char quote) s) @ [quote])"

text \<open>\<open>s.replace(old, '')\<close> for a two-character \<open>old\<close>: every occurrence is removed,
  scanning from the left.\<close>

fun remove_all2 :: "char \<Rightarrow> char \<Rightarrow> string \<Rightarrow> string" where
  "remove_all2 a b (x # y # s) =
     (if x = a \<and> y = b then remove_all2 a b s else x # remove_all2 a b (y # s))"
| "remove_all2 a b s = s"

section \<open>Exceptions\<close>

text \<open>A function that may raise returns \<open>exn + 'a\<close>: \<open>Inl\<close> carries the exception,
  with its message.\<close>

datatype exn = ValueError string | KeyError string | AttributeError string

section \<open>Name format guards\<close>

text \<open>
  The two patterns of the source have the shape \<open>^[class]*$\<close>. A pattern is a list of
  items, and \<open>re_run\<close> is the backtracking matcher of Python's \<open>re\<close> on these items:
  \<open>^\<close> matches only at the start of the text, \<open>[class]*\<close> greedily takes characters of
  the class and gives them back one at a time when the rest fails, and \<open>$\<close> matches at
  the end of the text and also just before a newline that ends the text. The flag says
  whether the position is the start of the text; the string is the text still to read.
\<close>

datatype re_item = Caret | Dollar | StarClass "(char \<times> char) list"

definition in_class :: "(char \<times> char) list \<Rightarrow> char \<Rightarrow> bool" where
  "in_class ranges c =
     list_ex (\<lambda>(lo, hi). (of_char lo :: nat) \<le> of_char c \<and> (of_char c :: nat) \<le> of_char hi) ranges"

fun re_run :: "re_item list \<Rightarrow> bool \<Rightarrow> string \<Rightarrow> bool" where
  "re_run [] at_start s = True"
| "re_run (Caret # items) at_start s = (at_start \<and> re_run items at_start s)"
| "re_run (Dollar # items) at_start s = ((s = [] \<or> s = [nl]) \<and> re_run items at_start s)"
| "re_run (StarClass cl # items) at_start [] = re_run items at_start []"
| "re_run (StarClass cl # items) at_start (c # cs) =
     ((in_class cl c \<and> re_run (StarClass cl # items) False cs) \<or> re_run items at_start (c # cs))"

text \<open>\<open>re.match(pattern, value)\<close>, read as a truth value: a match anchored at the
  start of \<open>value\<close>.\<close>

definition re_match :: "re_item list \<Rightarrow> string \<Rightarrow> bool" where
  "re_match pattern val = re_run pattern True val"

definition LOWERCASE_LETTERS_NUMBERS_AND_DASHES_ONLY_REGEX :: "re_item list" where
  "LOWERCASE_LETTERS_NUMBERS_AND_DASHES_ONLY_REGEX =
     [Caret, StarClass [(CHR ''a'', CHR ''z''), (CHR ''0'', CHR ''9''), (CHR ''-'', CHR ''-'')], Dollar]"

definition LOWERCASE_LETTERS_NUMBERS_AND_UNDERSCORES_REGEX :: "re_item list" where
  "LOWERCASE_LETTERS_NUMBERS_AND_UNDERSCORES_REGEX =
     [Caret, StarClass [(CHR ''a'', CHR ''z''), (CHR ''0'', CHR ''9''), (CHR ''_'', CHR ''_'')], Dollar]"

definition raise_on_name_alphanumeric_dashes_only ::
    "string option \<Rightarrow> string \<Rightarrow> exn + string option" where
  "raise_on_name_alphanumeric_dashes_only val field_name =
     (case val of
        None \<Rightarrow> Inr val
      | Some s \<Rightarrow>
          if \<not> re_match LOWERCASE_LETTERS_NUMBERS_AND_DASHES_ONLY_REGEX s
          then Inl (ValueError
                 (field_name @ '' must only contain lowercase letters, numbers, and dashes.''))
          else Inr val)"

definition raise_on_name_alphanumeric_underscores_only ::
    "string option \<Rightarrow> string \<Rightarrow> exn + string option" where
  "raise_on_name_alphanumeric_underscores_only val field_name =
     (case val of
        None \<Rightarrow> Inr val
      | Some s \<Rightarrow>
          if \<not> re_match LOWERCASE_LETTERS_NUMBERS_AND_UNDERSCORES_REGEX s
          then Inl (ValueError
                 (field_name @ '' must only contain lowercase letters, numbers, and underscores.''))
          else Inr val)"

section \<open>Python values and dictionaries\<close>

text \<open>
  The values a configuration mapping holds: \<open>None\<close>, booleans, integers, strings and
  lists of values (floating-point numbers are outside the modelled universe). A \<open>dict\<close>
  is an association list in insertion order, as Python keeps it: looking a key up is
  \<open>map_of\<close>, \<open>d[k] = x\<close> replaces the value in place or appends a new entry
  (\<open>AList.update\<close>), and \<open>d.pop(k, default)\<close> removes the entry (\<open>AList.delete\<close>).
\<close>

datatype pyval = PNone | PBool bool | PInt int | PStr string | PList "pyval list"

type_synonym 'v dict = "(string \<times> 'v) list"

definition py_get :: "'v dict \<Rightarrow> string \<Rightarrow> 'v \<Rightarrow> 'v" where
  "py_get d k dflt = (case map_of d k of None \<Rightarrow> dflt | Some x \<Rightarrow> x)"

definition py_getitem :: "'v dict \<Rightarrow> string \<Rightarrow> exn + 'v" where
  "py_getitem d k = (case map_of d k of None \<Rightarrow> Inl (KeyError k) | Some x \<Rightarrow> Inr x)"

definition py_setitem :: "'v dict \<Rightarrow> string \<Rightarrow> 'v \<Rightarrow> 'v dict" where
  "py_setitem d k x = AList.update k x d"

definition py_pop :: "'v dict \<Rightarrow> string \<Rightarrow> 'v \<Rightarrow> 'v \<times> 'v dict" where
  "py_pop d k dflt = (py_get d k dflt, AList.delete k d)"

definition py_contains :: "'v dict \<Rightarrow> string \<Rightarrow> bool" where
  "py_contains d k = (map_of d k \<noteq> None)"

text \<open>Truth value of a Python value (\<open>not x\<close>, \<open>if x\<close>, \<open>x or y\<close>).\<close>

fun py_truthy :: "pyval \<Rightarrow> bool" where
  "py_truthy PNone = False"
| "py_truthy (PBool b) = b"
| "py_truthy (PInt i) = (i \<noteq> 0)"
| "py_truthy (PStr s) = (s \<noteq> [])"
| "py_truthy (PList xs) = (xs \<noteq> [])"

text \<open>\<open>x != 0\<close>: an integer differs from \<open>0\<close> when it is not zero, \<open>False\<close> equals
  \<open>0\<close> and \<open>True\<close> does not (\<open>bool\<close> is a subtype of \<open>int\<close>), and a value of any
  other type differs from \<open>0\<close>.\<close>

fun py_ne_zero :: "pyval \<Rightarrow> bool" where
  "py_ne_zero (PInt i) = (i \<noteq> 0)"
| "py_ne_zero (PBool b) = b"
| "py_ne_zero PNone = True"
| "py_ne_zero (PStr s) = True"
| "py_ne_zero (PList xs) = True"




section \<open>Schema conformance\<close>

text \<open>
  The exceptions of the external schema engine: \<open>jsonschema.ValidationError\<close> with its
  \<open>json_path\<close> and \<open>message\<close>, and \<open>jsonschema.SchemaError\<close> with its \<open>message\<close>.
  The engine itself (\<open>jsonschema.validate\<close>) and \<open>remove_nested_keys\<close> (imported from
  \<open>prefect.utilities.collections\<close>) are parameters of the model; so are the types of
  the values mapping and of the schema document.
\<close>

datatype schema_exn = ValidationError string string | SchemaError string

definition validate_values_conform_to_schema ::
    "(string list \<Rightarrow> 's option \<Rightarrow> 's option) \<Rightarrow> ('v \<Rightarrow> 's \<Rightarrow> schema_exn + unit) \<Rightarrow>
     'v option \<Rightarrow> 's option \<Rightarrow> bool \<Rightarrow> exn + unit" where
  "validate_values_conform_to_schema remove_nested_keys jsonschema_validate
       vals schema ignore_required =
     (let schema = (if ignore_required then remove_nested_keys [''required''] schema else schema)
      in case (schema, vals) of
           (Some sch, Some vs) \<Rightarrow>
             (case jsonschema_validate vs sch of
                Inr u \<Rightarrow> Inr ()
              | Inl (ValidationError json_path message) \<Rightarrow>
                  (let error_message =
                         (if json_path = ''$'' then ''Validation failed.''
                          else ''Validation failed for field ''
                                 @ repr_str (remove_all2 (CHR ''$'') (CHR ''.'') json_path) @ ''.'');
                       error_message = error_message @ '' Failure reason: '' @ message
                   in Inl (ValueError error_message))
              | Inl (SchemaError message) \<Rightarrow>
                  Inl (ValueError
                    (''The provided schema is not a valid json schema. Schema error: '' @ message)))
         | _ \<Rightarrow> Inr ())"

section \<open>Field migration\<close>

text \<open>\<open>remove_old_deployment_fields\<close> works on a copy of its argument and emits
  warnings; the model returns the warnings (both of category \<open>UserWarning\<close>), in the
  order emitted, beside the copy.\<close>

datatype warning = UserWarning string

definition remove_old_deployment_fields :: "pyval dict \<Rightarrow> warning list \<times> pyval dict" where
  "remove_old_deployment_fields vals =
     (let values_copy = vals;
          (worker_pool_queue_id, values_copy) = py_pop values_copy ''worker_pool_queue_id'' PNone;
          (worker_pool_name, values_copy) = py_pop values_copy ''worker_pool_name'' PNone;
          (worker_pool_queue_name, values_copy) = py_pop values_copy ''worker_pool_queue_name'' PNone;
          (work_pool_queue_name, values_copy) = py_pop values_copy ''work_pool_queue_name'' PNone;
          w1 = (if py_truthy worker_pool_queue_id
                then [UserWarning (''`worker_pool_queue_id` is no longer supported for creating or updating ''
                        @ ''deployments. Please use `work_pool_name` and ''
                        @ ''`work_queue_name` instead.'')]
                else []);
          w2 = (if py_truthy worker_pool_name \<or> py_truthy worker_pool_queue_name
                     \<or> py_truthy work_pool_queue_name
                then [UserWarning (''`worker_pool_name`, `worker_pool_queue_name`, and ''
                        @ ''`work_pool_name` are''
                        @ ''no longer supported for creating or updating ''
                        @ ''deployments. Please use `work_pool_name` and ''
                        @ ''`work_queue_name` instead.'')]
                else [])
      in (w1 @ w2, values_copy))"

definition reconcile_paused_deployment :: "pyval dict \<Rightarrow> pyval dict" where
  "reconcile_paused_deployment vals =
     (let paused = py_get vals ''paused'' PNone
      in if paused = PNone then py_setitem vals ''paused'' (PBool False) else vals)"

text \<open>\<open>set_run_policy_deprecated_fields\<close> updates the mapping in place and returns it;
  the model returns the updated mapping. The subscript \<open>values["max_retries"]\<close> raises
  \<open>KeyError\<close> on a missing key, so the result is a sum.\<close>

definition set_run_policy_deprecated_fields :: "pyval dict \<Rightarrow> exn + pyval dict" where
  "set_run_policy_deprecated_fields vals =
     (case (if \<not> py_truthy (py_get vals ''retries'' PNone)
                \<and> py_ne_zero (py_get vals ''max_retries'' (PInt 0))
            then (case py_getitem vals ''max_retries'' of
                    Inl e \<Rightarrow> Inl e
                  | Inr x \<Rightarrow> Inr (py_setitem vals ''retries'' x))
            else Inr vals) of
        Inl e \<Rightarrow> Inl e
      | Inr vals \<Rightarrow>
          (if \<not> py_truthy (py_get vals ''retry_delay'' PNone)
                \<and> py_ne_zero (py_get vals ''retry_delay_seconds'' (PInt 0))
           then (case py_getitem vals ''retry_delay_seconds'' of
                   Inl e \<Rightarrow> Inl e
                 | Inr x \<Rightarrow> Inr (py_setitem vals ''retry_delay'' x))
           else Inr vals))"

section \<open>Timezone resolution\<close>

text \<open>
  Of a \<open>pendulum.DateTime\<close> the source reads only \<open>tz\<close>, and of a timezone only
  \<open>name\<close>. A value of the context mapping is such a timestamp or any other Python
  value; reading \<open>.tz\<close> of the latter raises \<open>AttributeError\<close>. The table of zone names
  \<open>pendulum.tz.timezones()\<close> is a parameter.
\<close>

datatype tzinfo = Timezone (tz_name: string)

datatype DateTime = DateTime (dt_tz: "tzinfo option")

datatype ctxval = CDateTime DateTime | CVal pyval

definition default_timezone ::
    "string list \<Rightarrow> string option \<Rightarrow> ctxval dict option \<Rightarrow> exn + string option" where
  "default_timezone timezones v vals =
     (let vals = (case vals of None \<Rightarrow> [] | Some d \<Rightarrow> if d \<noteq> [] then d else [])
      in case v of
           Some s \<Rightarrow>
             (if s \<noteq> [] \<and> s \<notin> set timezones
              then Inl (ValueError
                     (''Invalid timezone: \"'' @ s
                        @ ''\" (specify in IANA tzdata format, for example, America/New_York)''))
              else Inr v)
         | None \<Rightarrow>
             (if py_contains vals ''anchor_date''
              then (case py_getitem vals ''anchor_date'' of
                      Inl e \<Rightarrow> Inl e
                    | Inr (CVal x) \<Rightarrow> Inl (AttributeError ''tz'')
                    | Inr (CDateTime anchor_date) \<Rightarrow>
                        (let tz = (case dt_tz anchor_date of
                                     None \<Rightarrow> ''UTC''
                                   | Some z \<Rightarrow> tz_name z)
                         in Inr (Some (if tz \<in> set timezones then tz else ''UTC''))))
              else Inr v))"

section \<open>Schedule grammar\<close>

text \<open>The external cron checker \<open>croniter.is_valid\<close> is a parameter. The generator
  inside \<open>any\<close> yields the tokens whose folded form is in the list; \<open>any\<close> asks
  whether one of the yielded strings is true, that is non-empty.\<close>

definition validate_cron_string :: "(string \<Rightarrow> bool) \<Rightarrow> string \<Rightarrow> exn + string" where
  "validate_cron_string croniter_is_valid v =
     (if \<not> croniter_is_valid v
      then Inl (ValueError (''Invalid cron string: \"'' @ v @ ''\"''))
      else if list_ex (\<lambda>c. c \<noteq> [])
                (filter (\<lambda>c. casefold c \<in> set [''R'', ''H'', ''r'', ''h'']) (py_split v))
      then Inl (ValueError
             (''Random and Hashed expressions are unsupported, received: \"'' @ v @ ''\"''))
      else Inr v)"

text \<open>The external parser \<open>dateutil.rrule.rrulestr\<close> is a parameter: it returns, or
  raises an exception. Only a \<open>ValueError\<close> is caught and raised again with the whole
  string and the parser's diagnostic; any other exception leaves the function as it is.\<close>

definition MAX_RRULE_LENGTH :: nat where
  "MAX_RRULE_LENGTH = 6500"

definition validate_rrule_string :: "(string \<Rightarrow> exn + unit) \<Rightarrow> string \<Rightarrow> exn + string" where
  "validate_rrule_string rrulestr v =
     (case rrulestr v of
        Inl (ValueError exc) \<Rightarrow> Inl (ValueError (''Invalid RRule string \"'' @ v @ ''\": '' @ exc))
      | Inl e \<Rightarrow> Inl e
      | Inr u \<Rightarrow>
          if length v > MAX_RRULE_LENGTH
          then Inl (ValueError
                 (''Invalid RRule string \"'' @ take 40 v @ ''...\"'' @ [nl]
                    @ ''Max length is '' @ str_nat MAX_RRULE_LENGTH
                    @ '', got '' @ str_nat (length v)))
          else Inr v)"

section \<open>Metadata truncation\<close>



section \<open>Schema documents and the engine's reading of them\<close>

text \<open>
  A schema document and a values mapping are JSON documents: \<open>null\<close>, booleans,
  integers, strings, arrays, and objects as association lists.
\<close>

datatype json = JNull | JBool bool | JInt int | JStr string | JArr "json list"
  | JObj "(string \<times> json) list"

text \<open>
  Modelled from the spec: \<open>remove_nested_keys\<close> is imported from
  \<open>prefect.utilities.collections\<close>, which is not among the source files. The spec says
  of its use that the schema's \<open>required\<close> constraints are stripped recursively, at
  every nesting level, before validation. So the function removes every entry whose
  key is listed, from the document and from every document nested in it. An absent
  schema (\<open>None\<close>) has nothing to strip.
\<close>

fun remove_nested_keys :: "string list \<Rightarrow> json \<Rightarrow> json" where
  "remove_nested_keys keys_to_remove (JObj kvs) =
     JObj (map (\<lambda>(k, v). (k, remove_nested_keys keys_to_remove v))
             (filter (\<lambda>(k, v). k \<notin> set keys_to_remove) kvs))"
| "remove_nested_keys keys_to_remove (JArr xs) = JArr (map (remove_nested_keys keys_to_remove) xs)"
| "remove_nested_keys keys_to_remove j = j"









section \<open>Stand-ins for the external collaborators\<close>

text \<open>Fixed collaborators, used where a function is evaluated on an explicit input: a
  cron checker that accepts every string, a recurrence-rule parser that returns, one
  that raises the given exception, a schema engine that raises the given exception,
  and a \<open>remove_nested_keys\<close> that returns the schema as it is.\<close>

definition croniter_accepts :: "string \<Rightarrow> bool" where
  "croniter_accepts v = True"

definition rrulestr_returns :: "string \<Rightarrow> exn + unit" where
  "rrulestr_returns v = Inr ()"

definition rrulestr_raises :: "exn \<Rightarrow> string \<Rightarrow> exn + unit" where
  "rrulestr_raises e v = Inl e"

definition engine_raises :: "schema_exn \<Rightarrow> 'v \<Rightarrow> 's \<Rightarrow> schema_exn + unit" where
  "engine_raises e vs sch = Inl e"

definition keep_schema :: "string list \<Rightarrow> 's option \<Rightarrow> 's option" where
  "keep_schema keys schema = schema"


section \<open>Properties of the name format guards\<close>

lemma re_run_star_dollar:
  assumes "\<not> in_class cl nl"
  shows "re_run [StarClass cl, Dollar] b s =
           (dropWhile (in_class cl) s = [] \<or> dropWhile (in_class cl) s = [nl])"
  using assms by (induction s arbitrary: b) auto

lemma re_match_class_star:
  assumes "\<not> in_class cl nl"
  shows "re_match [Caret, StarClass cl, Dollar] s =
           (dropWhile (in_class cl) s = [] \<or> dropWhile (in_class cl) s = [nl])"
  using re_run_star_dollar [OF assms] by (simp add: re_match_def)

lemma nl_not_in_dash_class:
  "\<not> in_class [(CHR ''a'', CHR ''z''), (CHR ''0'', CHR ''9''), (CHR ''-'', CHR ''-'')] nl"
  by (simp add: in_class_def)

lemma nl_not_in_underscore_class:
  "\<not> in_class [(CHR ''a'', CHR ''z''), (CHR ''0'', CHR ''9''), (CHR ''_'', CHR ''_'')] nl"
  by (simp add: in_class_def)

lemma dropWhile_one_newline:
  assumes "\<forall>c \<in> set s. P c" and "\<not> P nl"
  shows "dropWhile P (s @ [nl]) = [nl]"
  using assms by (simp add: dropWhile_append)

lemma long_not_short:
  "2 \<le> length xs \<Longrightarrow> xs \<noteq> [] \<and> xs \<noteq> [x]"
  by (cases xs) auto

lemma dropWhile_two_newlines:
  assumes "\<not> P nl"
  shows "dropWhile P (u @ [nl, nl]) \<noteq> [] \<and> dropWhile P (u @ [nl, nl]) \<noteq> [nl]"
proof -
  have "2 \<le> length (dropWhile P (u @ [nl, nl]))"
    using assms by (simp add: dropWhile_append)
  then show ?thesis by (rule long_not_short)
qed

text \<open>
  Claim C10. Both guards accept a text of allowed characters followed by one newline, and
  return it unchanged, although the newline is not an allowed character: \<open>re.match\<close>
  lets \<open>$\<close> match just before a newline that ends the text. A text that ends in two
  newlines is rejected by both guards, whatever stands before them.
\<close>

theorem name_guards_accept_one_trailing_newline:
  "((\<forall>c \<in> set s. in_class [(CHR ''a'', CHR ''z''), (CHR ''0'', CHR ''9''), (CHR ''-'', CHR ''-'')] c) \<longrightarrow>
      raise_on_name_alphanumeric_dashes_only (Some (s @ [nl])) field_name = Inr (Some (s @ [nl])))
   \<and> ((\<forall>c \<in> set s. in_class [(CHR ''a'', CHR ''z''), (CHR ''0'', CHR ''9''), (CHR ''_'', CHR ''_'')] c) \<longrightarrow>
      raise_on_name_alphanumeric_underscores_only (Some (s @ [nl])) field_name = Inr (Some (s @ [nl])))
   \<and> \<not> in_class [(CHR ''a'', CHR ''z''), (CHR ''0'', CHR ''9''), (CHR ''-'', CHR ''-'')] nl
   \<and> \<not> in_class [(CHR ''a'', CHR ''z''), (CHR ''0'', CHR ''9''), (CHR ''_'', CHR ''_'')] nl
   \<and> raise_on_name_alphanumeric_dashes_only (Some (u @ [nl, nl])) field_name =
        Inl (ValueError (field_name @ '' must only contain lowercase letters, numbers, and dashes.''))
   \<and> raise_on_name_alphanumeric_underscores_only (Some (u @ [nl, nl])) field_name =
        Inl (ValueError (field_name @ '' must only contain lowercase letters, numbers, and underscores.''))"
proof -
  let ?D = "[(CHR ''a'', CHR ''z''), (CHR ''0'', CHR ''9''), (CHR ''-'', CHR ''-'')]"
  let ?U = "[(CHR ''a'', CHR ''z''), (CHR ''0'', CHR ''9''), (CHR ''_'', CHR ''_'')]"
  have d1: "re_match [Caret, StarClass ?D, Dollar] (s @ [nl])" if "\<forall>c \<in> set s. in_class ?D c"
    using that dropWhile_one_newline [of s "in_class ?D"]
    by (simp only: re_match_class_star [OF nl_not_in_dash_class] nl_not_in_dash_class) simp
  have u1: "re_match [Caret, StarClass ?U, Dollar] (s @ [nl])" if "\<forall>c \<in> set s. in_class ?U c"
    using that dropWhile_one_newline [of s "in_class ?U"]
    by (simp only: re_match_class_star [OF nl_not_in_underscore_class] nl_not_in_underscore_class) simp
  have d2: "\<not> re_match [Caret, StarClass ?D, Dollar] (u @ [nl, nl])"
    using dropWhile_two_newlines [of "in_class ?D" u] nl_not_in_dash_class
    by (simp only: re_match_class_star [OF nl_not_in_dash_class]) simp
  have u2: "\<not> re_match [Caret, StarClass ?U, Dollar] (u @ [nl, nl])"
    using dropWhile_two_newlines [of "in_class ?U" u] nl_not_in_underscore_class
    by (simp only: re_match_class_star [OF nl_not_in_underscore_class]) simp
  show ?thesis
    using d1 u1 d2 u2 nl_not_in_dash_class nl_not_in_underscore_class
    by (simp add: raise_on_name_alphanumeric_dashes_only_def
        raise_on_name_alphanumeric_underscores_only_def
        LOWERCASE_LETTERS_NUMBERS_AND_DASHES_ONLY_REGEX_def
        LOWERCASE_LETTERS_NUMBERS_AND_UNDERSCORES_REGEX_def)
qed

text \<open>The theorem at the names \<open>my-name-1\<close> and \<open>my_name_1\<close>.\<close>

theorem name_guards_accept_one_trailing_newline_witness:
  "list_all (in_class [(CHR ''a'', CHR ''z''), (CHR ''0'', CHR ''9''), (CHR ''-'', CHR ''-'')]) ''my-name-1''
   \<and> raise_on_name_alphanumeric_dashes_only (Some (''my-name-1'' @ [nl])) ''value'' = Inr (Some (''my-name-1'' @ [nl]))
   \<and> list_all (in_class [(CHR ''a'', CHR ''z''), (CHR ''0'', CHR ''9''), (CHR ''_'', CHR ''_'')]) ''my_name_1''
   \<and> raise_on_name_alphanumeric_underscores_only (Some (''my_name_1'' @ [nl])) ''value'' = Inr (Some (''my_name_1'' @ [nl]))"
proof -
  have a: "\<forall>c \<in> set ''my-name-1''. in_class [(CHR ''a'', CHR ''z''), (CHR ''0'', CHR ''9''), (CHR ''-'', CHR ''-'')] c"
    by (simp add: in_class_def)
  have b: "\<forall>c \<in> set ''my_name_1''. in_class [(CHR ''a'', CHR ''z''), (CHR ''0'', CHR ''9''), (CHR ''_'', CHR ''_'')] c"
    by (simp add: in_class_def)
  show ?thesis
    using a b name_guards_accept_one_trailing_newline [of "''my-name-1''" "''value''"]
      name_guards_accept_one_trailing_newline [of "''my_name_1''" "''value''"]
    by (simp add: list_all_iff)
qed

section \<open>Properties of the schedule grammar validators\<close>

lemma py_split_from_nonempty:
  "t \<in> set (py_split_from cur s) \<Longrightarrow> t \<noteq> []"
  by (induction s arbitrary: cur) (auto split: if_splits)

lemma py_split_nonempty: "t \<in> set (py_split v) \<Longrightarrow> t \<noteq> []"
  unfolding py_split_def by (rule py_split_from_nonempty)

lemma casefold_r_h:
  "t \<in> {''r'', ''R'', ''h'', ''H''} \<Longrightarrow> casefold t \<in> set [''R'', ''H'', ''r'', ''h'']"
  by (auto simp: casefold_def casefold_char_def)

lemma py_split_cron_example: "py_split ''0 0 * * *'' = [''0'', ''0'', ''*'', ''*'', ''*'']"
  by (simp add: py_split_def py_isspace_def)

text \<open>
  Claim C1. When splitting the cron string on whitespace yields a token equal to \<open>r\<close>
  or \<open>h\<close> in either case, \<open>validate_cron_string\<close> raises \<open>ValueError\<close>; when the
  external checker accepts the string, it is the error for random and hashed
  expressions. The string \<open>0 0 * * *\<close>, when the checker accepts it, is returned
  unchanged.
\<close>

theorem validate_cron_string_random_hashed:
  "(t \<in> set (py_split v) \<and> t \<in> {''r'', ''R'', ''h'', ''H''} \<longrightarrow>
      (\<exists>msg. validate_cron_string croniter_is_valid v = Inl (ValueError msg))
      \<and> (croniter_is_valid v \<longrightarrow>
           validate_cron_string croniter_is_valid v =
             Inl (ValueError
               (''Random and Hashed expressions are unsupported, received: \"'' @ v @ ''\"''))))
   \<and> (croniter_is_valid ''0 0 * * *'' \<longrightarrow>
         validate_cron_string croniter_is_valid ''0 0 * * *'' = Inr ''0 0 * * *'')"
proof -
  have found: "list_ex (\<lambda>c. c \<noteq> [])
                 (filter (\<lambda>c. casefold c \<in> set [''R'', ''H'', ''r'', ''h'']) (py_split v))"
    if "t \<in> set (py_split v)" and "t \<in> {''r'', ''R'', ''h'', ''H''}"
  proof -
    have "t \<noteq> []" using that(1) by (rule py_split_nonempty)
    moreover have "casefold t \<in> set [''R'', ''H'', ''r'', ''h'']"
      using that(2) by (rule casefold_r_h)
    ultimately show ?thesis
      using that(1) unfolding list_ex_iff by auto
  qed
  have plain: "\<not> list_ex (\<lambda>c. c \<noteq> [])
                 (filter (\<lambda>c. casefold c \<in> set [''R'', ''H'', ''r'', ''h''])
                    (py_split ''0 0 * * *''))"
    by (simp add: py_split_cron_example casefold_def casefold_char_def)
  show ?thesis
    using found plain by (auto simp: validate_cron_string_def)
qed

text \<open>The theorem at \<open>R * * * *\<close>, with a checker that accepts every string.\<close>

theorem validate_cron_string_random_hashed_witness:
  "''R'' \<in> set (py_split ''R * * * *'')
   \<and> validate_cron_string croniter_accepts ''R * * * *'' =
       Inl (ValueError
         ''Random and Hashed expressions are unsupported, received: \"R * * * *\"'')
   \<and> validate_cron_string croniter_accepts ''0 0 * * *'' = Inr ''0 0 * * *''"
proof -
  have tok: "''R'' \<in> set (py_split ''R * * * *'')"
    by (simp add: py_split_def py_isspace_def)
  show ?thesis
    using tok validate_cron_string_random_hashed
            [of "''R''" "''R * * * *''" croniter_accepts]
    by (simp add: croniter_accepts_def)
qed

lemma str_nat_6500: "str_nat 6500 = ''6500''"
  by (simp add: str_nat.simps digit_char_def)

lemma str_nat_6501: "str_nat 6501 = ''6501''"
  by (simp add: str_nat.simps digit_char_def)

text \<open>
  Claim C4. A recurrence-rule string of length 6501 that the external parser accepts
  is rejected with the max-length \<open>ValueError\<close>; the excerpt in its message is the
  first 40 characters of the string, and nothing more of it.
\<close>

theorem validate_rrule_string_length_6501:
  "length v = 6501 \<and> rrulestr v = Inr () \<longrightarrow>
     validate_rrule_string rrulestr v =
       Inl (ValueError
         (''Invalid RRule string \"'' @ take 40 v @ ''...\"'' @ [nl]
            @ ''Max length is 6500, got 6501''))
     \<and> length (take 40 v) = 40"
  by (simp add: validate_rrule_string_def MAX_RRULE_LENGTH_def str_nat_6500 str_nat_6501)

text \<open>The theorem at a string of 6501 letters \<open>x\<close>, with a parser that returns.\<close>

theorem validate_rrule_string_length_6501_witness:
  "length (replicate 6501 (CHR ''x'')) = 6501
   \<and> rrulestr_returns (replicate 6501 (CHR ''x'')) = Inr ()
   \<and> validate_rrule_string rrulestr_returns (replicate 6501 (CHR ''x'')) =
       Inl (ValueError
         (''Invalid RRule string \"'' @ replicate 40 (CHR ''x'') @ ''...\"'' @ [nl]
            @ ''Max length is 6500, got 6501''))"
  using validate_rrule_string_length_6501 [of "replicate 6501 (CHR ''x'')" rrulestr_returns]
  by (simp add: rrulestr_returns_def)

text \<open>
  Claim C3, as amended. The parser is asked first, so a string longer than 6500
  characters is always rejected, but by an error that depends on the parser: the
  max-length \<open>ValueError\<close> with the first 40 characters when the parser returns; the
  invalid-string \<open>ValueError\<close>, with the whole string and the parser's diagnostic, when
  the parser raises \<open>ValueError\<close>; and the parser's own exception when it raises
  another one.
\<close>

theorem validate_rrule_string_over_limit:
  "length v > 6500 \<longrightarrow>
     validate_rrule_string rrulestr v =
       (case rrulestr v of
          Inr u \<Rightarrow>
            Inl (ValueError
              (''Invalid RRule string \"'' @ take 40 v @ ''...\"'' @ [nl]
                 @ ''Max length is 6500, got '' @ str_nat (length v)))
        | Inl (ValueError exc) \<Rightarrow>
            Inl (ValueError (''Invalid RRule string \"'' @ v @ ''\": '' @ exc))
        | Inl e \<Rightarrow> Inl e)
     \<and> (\<exists>e. validate_rrule_string rrulestr v = Inl e)"
  by (auto simp: validate_rrule_string_def MAX_RRULE_LENGTH_def str_nat_6500
      split: sum.splits exn.splits)

text \<open>The theorem at a string of 6501 letters \<open>x\<close>, with a parser that returns and
  with one that raises \<open>ValueError\<close>.\<close>

theorem validate_rrule_string_over_limit_witness:
  "length (replicate 6501 (CHR ''x'')) > 6500
   \<and> validate_rrule_string rrulestr_returns (replicate 6501 (CHR ''x'')) =
       Inl (ValueError
         (''Invalid RRule string \"'' @ replicate 40 (CHR ''x'') @ ''...\"'' @ [nl]
            @ ''Max length is 6500, got 6501''))
   \<and> validate_rrule_string (rrulestr_raises (ValueError ''unknown parameter name''))
         (replicate 6501 (CHR ''x'')) =
       Inl (ValueError
         (''Invalid RRule string \"'' @ replicate 6501 (CHR ''x'')
            @ ''\": unknown parameter name''))"
  using validate_rrule_string_over_limit [of "replicate 6501 (CHR ''x'')" rrulestr_returns]
    validate_rrule_string_over_limit
      [of "replicate 6501 (CHR ''x'')" "rrulestr_raises (ValueError ''unknown parameter name'')"]
  by (simp add: rrulestr_returns_def rrulestr_raises_def str_nat_6501)

lemma differ_by_length: "length a \<noteq> length b \<Longrightarrow> a \<noteq> b"
  by auto

text \<open>
  Claim C3, as stated, fails: for a string of 6501 letters \<open>x\<close> that the parser
  refuses with a \<open>ValueError\<close>, the error raised is the invalid-string error with all
  6501 characters in its message, not the max-length error.
\<close>

theorem validate_rrule_string_unparseable_counterexample:
  "length (replicate 6501 (CHR ''x'')) > 6500
   \<and> validate_rrule_string (rrulestr_raises (ValueError ''unknown parameter name''))
         (replicate 6501 (CHR ''x'')) =
       Inl (ValueError
         (''Invalid RRule string \"'' @ replicate 6501 (CHR ''x'')
            @ ''\": unknown parameter name''))
   \<and> validate_rrule_string (rrulestr_raises (ValueError ''unknown parameter name''))
         (replicate 6501 (CHR ''x'')) \<noteq>
       Inl (ValueError
         (''Invalid RRule string \"'' @ replicate 40 (CHR ''x'') @ ''...\"'' @ [nl]
            @ ''Max length is 6500, got 6501''))"
proof -
  have "(''Invalid RRule string \"'' @ replicate 6501 (CHR ''x'') @ ''\": unknown parameter name'')
        \<noteq> (''Invalid RRule string \"'' @ replicate 40 (CHR ''x'') @ ''...\"'' @ [nl]
            @ ''Max length is 6500, got 6501'')"
    by (rule differ_by_length) simp
  then show ?thesis
    by (simp add: validate_rrule_string_def rrulestr_raises_def)
qed

section \<open>Properties of the timezone resolver\<close>

text \<open>
  Claim C2. (1) An explicit non-empty timezone that is not in the table of zone names
  raises \<open>ValueError\<close>; an explicit timezone that is empty or in the table is returned
  unchanged, whatever the context holds. (2) With no explicit timezone and an
  \<open>anchor_date\<close> timestamp in the context, the result is the name of the timestamp's
  zone when the table has that name, and \<open>UTC\<close> when the timestamp has no zone or its
  zone's name is not in the table (as for a numeric offset like \<open>+00:00\<close>). (3) With
  no explicit timezone and no \<open>anchor_date\<close>, the result is \<open>None\<close>.
\<close>

theorem default_timezone_resolution:
  "(s \<noteq> [] \<and> s \<notin> set timezones \<longrightarrow>
      default_timezone timezones (Some s) vals =
        Inl (ValueError
          (''Invalid timezone: \"'' @ s
             @ ''\" (specify in IANA tzdata format, for example, America/New_York)'')))
   \<and> (s = [] \<or> s \<in> set timezones \<longrightarrow>
      default_timezone timezones (Some s) vals = Inr (Some s))
   \<and> (map_of d ''anchor_date'' = Some (CDateTime (DateTime z)) \<longrightarrow>
      default_timezone timezones None (Some d) =
        Inr (Some (case z of
                     None \<Rightarrow> ''UTC''
                   | Some t \<Rightarrow> if tz_name t \<in> set timezones then tz_name t else ''UTC'')))
   \<and> (vals = None \<or> (\<exists>d'. vals = Some d' \<and> map_of d' ''anchor_date'' = None) \<longrightarrow>
      default_timezone timezones None vals = Inr None)"
  by (auto simp: default_timezone_def py_contains_def py_getitem_def Let_def
      split: option.splits)

text \<open>The theorem with a table of three zone names: an unknown zone, an empty string
  beside an anchor date, a known zone, anchor dates with the offset \<open>+00:00\<close>, with a
  named zone and with no zone, and no anchor date.\<close>

theorem default_timezone_resolution_witness:
  "default_timezone [''UTC'', ''America/New_York'', ''Europe/Berlin''] (Some ''Mars/Olympus'') None =
     Inl (ValueError
       (''Invalid timezone: \"Mars/Olympus\" (specify in IANA tzdata format, for example, America/New_York)''))
   \<and> default_timezone [''UTC'', ''America/New_York'', ''Europe/Berlin''] (Some [])
         (Some [(''anchor_date'', CDateTime (DateTime (Some (Timezone ''Europe/Berlin''))))]) =
       Inr (Some [])
   \<and> default_timezone [''UTC'', ''America/New_York'', ''Europe/Berlin''] (Some ''Europe/Berlin'') None =
       Inr (Some ''Europe/Berlin'')
   \<and> default_timezone [''UTC'', ''America/New_York'', ''Europe/Berlin''] None
         (Some [(''anchor_date'', CDateTime (DateTime (Some (Timezone ''+00:00''))))]) =
       Inr (Some ''UTC'')
   \<and> default_timezone [''UTC'', ''America/New_York'', ''Europe/Berlin''] None
         (Some [(''anchor_date'', CDateTime (DateTime (Some (Timezone ''America/New_York''))))]) =
       Inr (Some ''America/New_York'')
   \<and> default_timezone [''UTC'', ''America/New_York'', ''Europe/Berlin''] None
         (Some [(''anchor_date'', CDateTime (DateTime None))]) =
       Inr (Some ''UTC'')
   \<and> default_timezone [''UTC'', ''America/New_York'', ''Europe/Berlin''] None
         (Some [(''interval'', CVal (PInt 60))]) =
       Inr None"
  using
    default_timezone_resolution
      [of "''Mars/Olympus''" "[''UTC'', ''America/New_York'', ''Europe/Berlin'']" None
          "[(''anchor_date'', CDateTime (DateTime (Some (Timezone ''+00:00''))))]"
          "Some (Timezone ''+00:00'')"]
    default_timezone_resolution
      [of "[]" "[''UTC'', ''America/New_York'', ''Europe/Berlin'']"
          "Some [(''anchor_date'', CDateTime (DateTime (Some (Timezone ''Europe/Berlin''))))]"
          "[(''anchor_date'', CDateTime (DateTime (Some (Timezone ''America/New_York''))))]"
          "Some (Timezone ''America/New_York'')"]
    default_timezone_resolution
      [of "''Europe/Berlin''" "[''UTC'', ''America/New_York'', ''Europe/Berlin'']" None
          "[(''anchor_date'', CDateTime (DateTime None))]" None]
    default_timezone_resolution
      [of "''Europe/Berlin''" "[''UTC'', ''America/New_York'', ''Europe/Berlin'']"
          "Some [(''interval'', CVal (PInt 60))]"
          "[(''anchor_date'', CDateTime (DateTime None))]" None]
  by simp

section \<open>Properties of the schema conformance check\<close>

lemma repr_char_plain:
  "py_isprintable c \<Longrightarrow> c \<noteq> squote \<Longrightarrow> c \<noteq> backslash \<Longrightarrow> repr_char squote c = [c]"
  by (auto simp: repr_char_def py_isprintable_def)

lemma concat_repr_char_plain:
  "\<forall>c \<in> set p. py_isprintable c \<and> c \<noteq> squote \<and> c \<noteq> backslash \<Longrightarrow>
     concat (map (repr_char squote) p) = p"
  by (induction p) (simp_all add: repr_char_plain)

lemma repr_str_plain:
  assumes "\<forall>c \<in> set p. py_isprintable c \<and> c \<noteq> squote \<and> c \<noteq> backslash"
  shows "repr_str p = squote # p @ [squote]"
proof -
  have "squote \<notin> set p" using assms by auto
  then show ?thesis
    using concat_repr_char_plain [OF assms] by (simp add: repr_str_def Let_def)
qed

lemma remove_all2_absent:
  "\<forall>l r. s \<noteq> l @ [a, b] @ r \<Longrightarrow> remove_all2 a b s = s"
proof (induction a b s rule: remove_all2.induct)
  case (1 a b x y s)
  have ne: "\<not> (x = a \<and> y = b)"
    using "1.prems" [rule_format, of "[]" s] by auto
  have "\<forall>l r. y # s \<noteq> l @ [a, b] @ r"
  proof (intro allI notI)
    fix l r assume "y # s = l @ [a, b] @ r"
    then have "x # y # s = (x # l) @ [a, b] @ r" by simp
    with "1.prems" show False by blast
  qed
  with 1 ne show ?case by auto
qed simp_all

text \<open>
  Claim C6, as amended. When the engine reports a conformance failure with path
  \<open>json_path\<close> and message \<open>detail\<close>, the error raised has the message
  \<open>Validation failed. Failure reason: detail\<close> when the path is \<open>$\<close>, and otherwise
  \<open>Validation failed for field R. Failure reason: detail\<close>, where \<open>R\<close> is Python's
  \<open>repr\<close> of the path with every occurrence of \<open>$.\<close> removed. \<open>R\<close> is the dot-path
  in single quotes whenever the path is \<open>$.\<close> followed by a dot-path of printable
  characters with no single quote, no backslash and no further \<open>$.\<close>.
\<close>

theorem schema_failure_message:
  "(if ignore_required then strip_keys [''required''] schema else schema) = Some sch
   \<and> jsonschema_validate vs sch = Inl (ValidationError json_path detail) \<longrightarrow>
     validate_values_conform_to_schema strip_keys jsonschema_validate
         (Some vs) schema ignore_required =
       Inl (ValueError
         (if json_path = ''$'' then ''Validation failed. Failure reason: '' @ detail
          else ''Validation failed for field ''
                 @ repr_str (remove_all2 (CHR ''$'') (CHR ''.'') json_path)
                 @ ''. Failure reason: '' @ detail))
     \<and> (json_path = ''$.'' @ p
          \<and> (\<forall>l r. p \<noteq> l @ ''$.'' @ r)
          \<and> list_all (\<lambda>c. py_isprintable c \<and> c \<noteq> squote \<and> c \<noteq> backslash) p \<longrightarrow>
         validate_values_conform_to_schema strip_keys jsonschema_validate
             (Some vs) schema ignore_required =
           Inl (ValueError
             (''Validation failed for field '' @ [squote] @ p @ [squote]
                @ ''. Failure reason: '' @ detail)))"
proof (intro impI, elim conjE)
  assume sch: "(if ignore_required then strip_keys [''required''] schema else schema) = Some sch"
    and eng: "jsonschema_validate vs sch = Inl (ValidationError json_path detail)"
  have main: "validate_values_conform_to_schema strip_keys jsonschema_validate
         (Some vs) schema ignore_required =
       Inl (ValueError
         (if json_path = ''$'' then ''Validation failed. Failure reason: '' @ detail
          else ''Validation failed for field ''
                 @ repr_str (remove_all2 (CHR ''$'') (CHR ''.'') json_path)
                 @ ''. Failure reason: '' @ detail))"
    using sch eng by (simp add: validate_values_conform_to_schema_def Let_def)
  have plain: "repr_str (remove_all2 (CHR ''$'') (CHR ''.'') json_path) = squote # p @ [squote]"
    if "json_path = ''$.'' @ p" and "\<forall>l r. p \<noteq> l @ ''$.'' @ r"
      and "list_all (\<lambda>c. py_isprintable c \<and> c \<noteq> squote \<and> c \<noteq> backslash) p"
  proof -
    have "remove_all2 (CHR ''$'') (CHR ''.'') json_path = remove_all2 (CHR ''$'') (CHR ''.'') p"
      using that(1) by simp
    also have "\<dots> = p" using that(2) by (rule remove_all2_absent)
    finally show ?thesis
      using that(3) by (simp add: repr_str_plain list_all_iff)
  qed
  show "validate_values_conform_to_schema strip_keys jsonschema_validate
         (Some vs) schema ignore_required =
       Inl (ValueError
         (if json_path = ''$'' then ''Validation failed. Failure reason: '' @ detail
          else ''Validation failed for field ''
                 @ repr_str (remove_all2 (CHR ''$'') (CHR ''.'') json_path)
                 @ ''. Failure reason: '' @ detail))
     \<and> (json_path = ''$.'' @ p
          \<and> (\<forall>l r. p \<noteq> l @ ''$.'' @ r)
          \<and> list_all (\<lambda>c. py_isprintable c \<and> c \<noteq> squote \<and> c \<noteq> backslash) p \<longrightarrow>
         validate_values_conform_to_schema strip_keys jsonschema_validate
             (Some vs) schema ignore_required =
           Inl (ValueError
             (''Validation failed for field '' @ [squote] @ p @ [squote]
                @ ''. Failure reason: '' @ detail)))"
    using main plain by auto
qed

lemma repr_its: "repr_str ''it's'' = [dquote] @ ''it's'' @ [dquote]"
  by (simp add: repr_str_def repr_char_def py_isprintable_def Let_def)

text \<open>
  Claim C6, as stated, fails: for the path \<open>$.it's\<close> (a failure at a field whose name has
  an apostrophe) \<open>repr\<close> encloses the field in double quotes, so the message is not
  the single-quoted one of the claim.
\<close>

theorem schema_failure_message_counterexample:
  "validate_values_conform_to_schema keep_schema
       (engine_raises (ValidationError ''$.it's'' ''5 is less than the minimum of 10''))
       (Some [(''it's'', PInt 5)]) (Some [(''minimum'', PInt 10)]) False =
     Inl (ValueError
       (''Validation failed for field '' @ [dquote] @ ''it's'' @ [dquote]
          @ ''. Failure reason: 5 is less than the minimum of 10''))
   \<and> validate_values_conform_to_schema keep_schema
       (engine_raises (ValidationError ''$.it's'' ''5 is less than the minimum of 10''))
       (Some [(''it's'', PInt 5)]) (Some [(''minimum'', PInt 10)]) False \<noteq>
     Inl (ValueError
       (''Validation failed for field '' @ [squote] @ ''it's'' @ [squote]
          @ ''. Failure reason: 5 is less than the minimum of 10''))"
  by (simp add: validate_values_conform_to_schema_def keep_schema_def engine_raises_def
      repr_its)

lemma no_dollar_no_occurrence:
  "CHR ''$'' \<notin> set p \<Longrightarrow> \<forall>l r. p \<noteq> l @ ''$.'' @ r"
  by auto

text \<open>The theorem at a failure reported for the field \<open>retries\<close>, and at one reported
  for the document root.\<close>

theorem schema_failure_message_witness:
  "validate_values_conform_to_schema keep_schema
       (engine_raises (ValidationError ''$.retries'' ''5 is less than the minimum of 10''))
       (Some [(''retries'', PInt 5)]) (Some [(''minimum'', PInt 10)]) False =
     Inl (ValueError
       (''Validation failed for field '' @ [squote] @ ''retries'' @ [squote]
          @ ''. Failure reason: 5 is less than the minimum of 10''))
   \<and> validate_values_conform_to_schema keep_schema
       (engine_raises (ValidationError ''$'' ''5 is less than the minimum of 10''))
       (Some [(''retries'', PInt 5)]) (Some [(''minimum'', PInt 10)]) True =
     Inl (ValueError ''Validation failed. Failure reason: 5 is less than the minimum of 10'')"
proof
  let ?S = "[(''minimum'', PInt 10)]"
  let ?V = "[(''retries'', PInt 5)]"
  let ?D = "''5 is less than the minimum of 10''"
  have a: "\<forall>l r. ''retries'' \<noteq> l @ ''$.'' @ r"
    by (rule no_dollar_no_occurrence) simp
  have b: "list_all (\<lambda>c. py_isprintable c \<and> c \<noteq> squote \<and> c \<noteq> backslash) ''retries''"
    by (simp add: py_isprintable_def)
  have c: "''$.retries'' = ''$.'' @ ''retries''" by simp
  have s1: "(if False then keep_schema [''required''] (Some ?S) else Some ?S) = Some ?S"
    by simp
  have e1: "engine_raises (ValidationError ''$.retries'' ?D) ?V ?S =
              Inl (ValidationError ''$.retries'' ?D)"
    by (simp add: engine_raises_def)
  have "validate_values_conform_to_schema keep_schema
       (engine_raises (ValidationError ''$.retries'' ?D)) (Some ?V) (Some ?S) False =
     Inl (ValueError
       (''Validation failed for field '' @ [squote] @ ''retries'' @ [squote]
          @ ''. Failure reason: '' @ ?D))"
    using schema_failure_message
        [of False keep_schema "Some ?S" ?S "engine_raises (ValidationError ''$.retries'' ?D)"
            ?V "''$.retries''" ?D "''retries''"]
      s1 e1 c a b
    by blast
  then show "validate_values_conform_to_schema keep_schema
       (engine_raises (ValidationError ''$.retries'' ?D)) (Some ?V) (Some ?S) False =
     Inl (ValueError
       (''Validation failed for field '' @ [squote] @ ''retries'' @ [squote]
          @ ''. Failure reason: 5 is less than the minimum of 10''))"
    by simp
  have s2: "(if True then keep_schema [''required''] (Some ?S) else Some ?S) = Some ?S"
    by (simp add: keep_schema_def)
  have e2: "engine_raises (ValidationError ''$'' ?D) ?V ?S = Inl (ValidationError ''$'' ?D)"
    by (simp add: engine_raises_def)
  have "validate_values_conform_to_schema keep_schema
       (engine_raises (ValidationError ''$'' ?D)) (Some ?V) (Some ?S) True =
     Inl (ValueError
         (if ''$'' = ''$'' then ''Validation failed. Failure reason: '' @ ?D
          else ''Validation failed for field ''
                 @ repr_str (remove_all2 (CHR ''$'') (CHR ''.'') ''$'')
                 @ ''. Failure reason: '' @ ?D))"
    using schema_failure_message
        [of True keep_schema "Some ?S" ?S "engine_raises (ValidationError ''$'' ?D)"
            ?V "''$''" ?D "''retries''"]
      s2 e2
    by blast
  then show "validate_values_conform_to_schema keep_schema
       (engine_raises (ValidationError ''$'' ?D)) (Some ?V) (Some ?S) True =
     Inl (ValueError ''Validation failed. Failure reason: 5 is less than the minimum of 10'')"
    by simp
qed

section \<open>Properties of the field migration\<close>

text \<open>One copy-forward step of the source, and the mapping it leaves.\<close>

lemma copy_forward_step:
  "(if \<not> py_truthy (py_get m new PNone) \<and> py_ne_zero (py_get m old (PInt 0))
    then (case py_getitem m old of
            Inl e \<Rightarrow> Inl e
          | Inr x \<Rightarrow> Inr (py_setitem m new x))
    else Inr m) =
   Inr (case map_of m old of
          None \<Rightarrow> m
        | Some x \<Rightarrow>
            if \<not> py_truthy (py_get m new PNone) \<and> py_ne_zero x
            then AList.update new x m else m)"
  by (auto simp: py_get_def py_getitem_def py_setitem_def split: option.splits)

lemma set_run_policy_deprecated_fields_eq:
  "set_run_policy_deprecated_fields m =
     Inr (let m1 = (case map_of m ''max_retries'' of
                      None \<Rightarrow> m
                    | Some x \<Rightarrow>
                        if \<not> py_truthy (py_get m ''retries'' PNone) \<and> py_ne_zero x
                        then AList.update ''retries'' x m else m)
          in case map_of m1 ''retry_delay_seconds'' of
               None \<Rightarrow> m1
             | Some y \<Rightarrow>
                 if \<not> py_truthy (py_get m1 ''retry_delay'' PNone) \<and> py_ne_zero y
                 then AList.update ''retry_delay'' y m1 else m1)"
  unfolding set_run_policy_deprecated_fields_def copy_forward_step
  by (simp add: Let_def)

lemma copy_forward_fixed:
  assumes "map_of m' old = map_of m old"
    and "map_of m' new =
           map_of (case map_of m old of
                     None \<Rightarrow> m
                   | Some x \<Rightarrow>
                       if \<not> py_truthy (py_get m new PNone) \<and> py_ne_zero x
                       then AList.update new x m else m) new"
  shows "(case map_of m' old of
            None \<Rightarrow> m'
          | Some x \<Rightarrow>
              if \<not> py_truthy (py_get m' new PNone) \<and> py_ne_zero x
              then AList.update new x m' else m') = m'"
proof (cases "map_of m old")
  case None
  then show ?thesis using assms(1) by simp
next
  case (Some x)
  show ?thesis
  proof (cases "\<not> py_truthy (py_get m new PNone) \<and> py_ne_zero x")
    case True
    then have "map_of m' new = Some x"
      using assms(2) Some by (simp add: update_conv')
    then have "AList.update new x m' = m'" by (rule update_triv)
    then show ?thesis using assms(1) Some by simp
  next
    case False
    have "map_of m' new = map_of m new" using False assms(2) Some by auto
    then have "py_get m' new PNone = py_get m new PNone" by (simp add: py_get_def)
    then show ?thesis using False assms(1) Some by auto
  qed
qed

lemma copy_forward_lookup:
  "map_of (case map_of m old of
             None \<Rightarrow> m
           | Some x \<Rightarrow>
               if \<not> py_truthy (py_get m new PNone) \<and> py_ne_zero x
               then AList.update new x m else m) k =
   (if k = new \<and> \<not> py_truthy (py_get m new PNone)
         \<and> (\<exists>x. map_of m old = Some x \<and> py_ne_zero x)
    then map_of m old else map_of m k)"
  by (auto simp: update_conv' split: option.splits)

lemma set_run_policy_deprecated_fields_fixed:
  assumes "set_run_policy_deprecated_fields m = Inr m2"
  shows "set_run_policy_deprecated_fields m2 = Inr m2"
proof -
  define m1 where "m1 = (case map_of m ''max_retries'' of
                      None \<Rightarrow> m
                    | Some x \<Rightarrow>
                        if \<not> py_truthy (py_get m ''retries'' PNone) \<and> py_ne_zero x
                        then AList.update ''retries'' x m else m)"
  have m2: "m2 = (case map_of m1 ''retry_delay_seconds'' of
               None \<Rightarrow> m1
             | Some y \<Rightarrow>
                 if \<not> py_truthy (py_get m1 ''retry_delay'' PNone) \<and> py_ne_zero y
                 then AList.update ''retry_delay'' y m1 else m1)"
    using assms unfolding set_run_policy_deprecated_fields_eq m1_def by (simp add: Let_def)
  have "map_of m2 ''max_retries'' = map_of m1 ''max_retries''"
    unfolding m2 by (simp add: copy_forward_lookup)
  also have "\<dots> = map_of m ''max_retries''"
    unfolding m1_def by (simp add: copy_forward_lookup)
  finally have a: "map_of m2 ''max_retries'' = map_of m ''max_retries''" .
  have b: "map_of m2 ''retries'' = map_of m1 ''retries''"
    unfolding m2 by (simp add: copy_forward_lookup)
  have first: "(case map_of m2 ''max_retries'' of
            None \<Rightarrow> m2
          | Some x \<Rightarrow>
              if \<not> py_truthy (py_get m2 ''retries'' PNone) \<and> py_ne_zero x
              then AList.update ''retries'' x m2 else m2) = m2"
    using a b [unfolded m1_def] by (rule copy_forward_fixed)
  have second: "(case map_of m2 ''retry_delay_seconds'' of
            None \<Rightarrow> m2
          | Some y \<Rightarrow>
              if \<not> py_truthy (py_get m2 ''retry_delay'' PNone) \<and> py_ne_zero y
              then AList.update ''retry_delay'' y m2 else m2) = m2"
  proof (rule copy_forward_fixed)
    show "map_of m2 ''retry_delay_seconds'' = map_of m1 ''retry_delay_seconds''"
      unfolding m2 by (simp add: copy_forward_lookup)
    show "map_of m2 ''retry_delay'' =
            map_of (case map_of m1 ''retry_delay_seconds'' of
               None \<Rightarrow> m1
             | Some y \<Rightarrow>
                 if \<not> py_truthy (py_get m1 ''retry_delay'' PNone) \<and> py_ne_zero y
                 then AList.update ''retry_delay'' y m1 else m1) ''retry_delay''"
      using m2 by simp
  qed
  show ?thesis
    unfolding set_run_policy_deprecated_fields_eq by (simp add: first second Let_def)
qed

lemma remove_old_deployment_fields_snd:
  "snd (remove_old_deployment_fields m) =
     AList.delete ''work_pool_queue_name''
       (AList.delete ''worker_pool_queue_name''
          (AList.delete ''worker_pool_name''
             (AList.delete ''worker_pool_queue_id'' m)))"
  by (simp add: remove_old_deployment_fields_def py_pop_def Let_def)

text \<open>
  Claim C7. \<open>set_run_policy_deprecated_fields\<close> never raises, and applied to its own
  result it returns that result; the mapping that \<open>remove_old_deployment_fields\<close>
  returns is the same after a second application as after the first.
\<close>

theorem reconcilers_idempotent:
  "(\<exists>m'. set_run_policy_deprecated_fields m = Inr m'
          \<and> set_run_policy_deprecated_fields m' = Inr m')
   \<and> snd (remove_old_deployment_fields (snd (remove_old_deployment_fields m))) =
       snd (remove_old_deployment_fields m)"
proof
  obtain m' where m': "set_run_policy_deprecated_fields m = Inr m'"
    unfolding set_run_policy_deprecated_fields_eq by blast
  then show "\<exists>m'. set_run_policy_deprecated_fields m = Inr m'
          \<and> set_run_policy_deprecated_fields m' = Inr m'"
    using set_run_policy_deprecated_fields_fixed by blast
  show "snd (remove_old_deployment_fields (snd (remove_old_deployment_fields m))) =
       snd (remove_old_deployment_fields m)"
    unfolding remove_old_deployment_fields_snd
    by (simp add: AList.delete_eq) (rule filter_cong, auto)
qed

lemma py_get_falsy:
  "(\<not> py_truthy (py_get m k PNone)) =
     (map_of m k = None \<or> (\<exists>r. map_of m k = Some r \<and> \<not> py_truthy r))"
  by (cases "map_of m k") (simp_all add: py_get_def)

text \<open>
  Claim C8. After \<open>set_run_policy_deprecated_fields\<close> the modern field holds the legacy
  value exactly when the modern field was absent or false and the legacy field was
  present with a value that differs from \<open>0\<close> (Python's \<open>!= 0\<close>); otherwise it holds
  what it held. Every other key, the legacy keys among them, keeps its value. On
  \<open>{"retries": 0, "max_retries": 3}\<close> the result has \<open>retries\<close> 3 and keeps
  \<open>max_retries\<close>. \<open>reconcile_paused_deployment\<close> sets \<open>paused\<close> to \<open>False\<close> when it is
  absent or \<open>None\<close>, as on \<open>{"paused": None}\<close>.
\<close>

theorem retry_fields_copied_forward:
  "(\<exists>m'. set_run_policy_deprecated_fields m = Inr m'
      \<and> map_of m' ''retries'' =
          (if (map_of m ''retries'' = None
                 \<or> (\<exists>r. map_of m ''retries'' = Some r \<and> \<not> py_truthy r))
               \<and> (\<exists>x. map_of m ''max_retries'' = Some x \<and> py_ne_zero x)
           then map_of m ''max_retries'' else map_of m ''retries'')
      \<and> map_of m' ''retry_delay'' =
          (if (map_of m ''retry_delay'' = None
                 \<or> (\<exists>r. map_of m ''retry_delay'' = Some r \<and> \<not> py_truthy r))
               \<and> (\<exists>x. map_of m ''retry_delay_seconds'' = Some x \<and> py_ne_zero x)
           then map_of m ''retry_delay_seconds'' else map_of m ''retry_delay'')
      \<and> (\<forall>k. k \<noteq> ''retries'' \<and> k \<noteq> ''retry_delay'' \<longrightarrow> map_of m' k = map_of m k))
   \<and> set_run_policy_deprecated_fields [(''retries'', PInt 0), (''max_retries'', PInt 3)] =
       Inr [(''retries'', PInt 3), (''max_retries'', PInt 3)]
   \<and> map_of (reconcile_paused_deployment m) ''paused'' =
       (if map_of m ''paused'' = None \<or> map_of m ''paused'' = Some PNone
        then Some (PBool False) else map_of m ''paused'')
   \<and> reconcile_paused_deployment [(''paused'', PNone)] = [(''paused'', PBool False)]"
proof (intro conjI)
  define m1 where "m1 = (case map_of m ''max_retries'' of
                      None \<Rightarrow> m
                    | Some x \<Rightarrow>
                        if \<not> py_truthy (py_get m ''retries'' PNone) \<and> py_ne_zero x
                        then AList.update ''retries'' x m else m)"
  define m2 where "m2 = (case map_of m1 ''retry_delay_seconds'' of
               None \<Rightarrow> m1
             | Some y \<Rightarrow>
                 if \<not> py_truthy (py_get m1 ''retry_delay'' PNone) \<and> py_ne_zero y
                 then AList.update ''retry_delay'' y m1 else m1)"
  have res: "set_run_policy_deprecated_fields m = Inr m2"
    unfolding set_run_policy_deprecated_fields_eq m2_def m1_def by (simp add: Let_def)
  have l1: "map_of m1 k =
      (if k = ''retries'' \<and> \<not> py_truthy (py_get m ''retries'' PNone)
            \<and> (\<exists>x. map_of m ''max_retries'' = Some x \<and> py_ne_zero x)
       then map_of m ''max_retries'' else map_of m k)" for k
    unfolding m1_def by (rule copy_forward_lookup)
  have l2: "map_of m2 k =
      (if k = ''retry_delay'' \<and> \<not> py_truthy (py_get m1 ''retry_delay'' PNone)
            \<and> (\<exists>x. map_of m1 ''retry_delay_seconds'' = Some x \<and> py_ne_zero x)
       then map_of m1 ''retry_delay_seconds'' else map_of m1 k)" for k
    unfolding m2_def by (rule copy_forward_lookup)
  have g: "py_get m1 ''retry_delay'' PNone = py_get m ''retry_delay'' PNone"
    by (simp add: py_get_def l1)
  have r1: "map_of m2 ''retries'' =
          (if (map_of m ''retries'' = None
                 \<or> (\<exists>r. map_of m ''retries'' = Some r \<and> \<not> py_truthy r))
               \<and> (\<exists>x. map_of m ''max_retries'' = Some x \<and> py_ne_zero x)
           then map_of m ''max_retries'' else map_of m ''retries'')"
    by (auto simp: l2 l1 py_get_falsy)
  have r2: "map_of m2 ''retry_delay'' =
          (if (map_of m ''retry_delay'' = None
                 \<or> (\<exists>r. map_of m ''retry_delay'' = Some r \<and> \<not> py_truthy r))
               \<and> (\<exists>x. map_of m ''retry_delay_seconds'' = Some x \<and> py_ne_zero x)
           then map_of m ''retry_delay_seconds'' else map_of m ''retry_delay'')"
    by (auto simp: l2 g l1 py_get_falsy)
  have r3: "\<forall>k. k \<noteq> ''retries'' \<and> k \<noteq> ''retry_delay'' \<longrightarrow> map_of m2 k = map_of m k"
    by (simp add: l2 l1)
  show "\<exists>m'. set_run_policy_deprecated_fields m = Inr m'
      \<and> map_of m' ''retries'' =
          (if (map_of m ''retries'' = None
                 \<or> (\<exists>r. map_of m ''retries'' = Some r \<and> \<not> py_truthy r))
               \<and> (\<exists>x. map_of m ''max_retries'' = Some x \<and> py_ne_zero x)
           then map_of m ''max_retries'' else map_of m ''retries'')
      \<and> map_of m' ''retry_delay'' =
          (if (map_of m ''retry_delay'' = None
                 \<or> (\<exists>r. map_of m ''retry_delay'' = Some r \<and> \<not> py_truthy r))
               \<and> (\<exists>x. map_of m ''retry_delay_seconds'' = Some x \<and> py_ne_zero x)
           then map_of m ''retry_delay_seconds'' else map_of m ''retry_delay'')
      \<and> (\<forall>k. k \<noteq> ''retries'' \<and> k \<noteq> ''retry_delay'' \<longrightarrow> map_of m' k = map_of m k)"
    using res r1 r2 r3 by blast
  show "set_run_policy_deprecated_fields [(''retries'', PInt 0), (''max_retries'', PInt 3)] =
       Inr [(''retries'', PInt 3), (''max_retries'', PInt 3)]"
    by (simp add: set_run_policy_deprecated_fields_def py_get_def py_getitem_def py_setitem_def)
  show "map_of (reconcile_paused_deployment m) ''paused'' =
       (if map_of m ''paused'' = None \<or> map_of m ''paused'' = Some PNone
        then Some (PBool False) else map_of m ''paused'')"
    by (auto simp: reconcile_paused_deployment_def py_get_def py_setitem_def update_conv'
        split: option.splits)
  show "reconcile_paused_deployment [(''paused'', PNone)] = [(''paused'', PBool False)]"
    by (simp add: reconcile_paused_deployment_def py_get_def py_setitem_def)
qed

text \<open>The theorem at \<open>{"retries": 0, "max_retries": 3}\<close>.\<close>

theorem retry_fields_copied_forward_witness:
  "\<exists>m'. set_run_policy_deprecated_fields [(''retries'', PInt 0), (''max_retries'', PInt 3)] = Inr m'
      \<and> map_of m' ''retries'' = Some (PInt 3)
      \<and> map_of m' ''max_retries'' = Some (PInt 3)"
  using retry_fields_copied_forward [of "[(''retries'', PInt 0), (''max_retries'', PInt 3)]"]
  by simp

section \<open>Properties of the metadata truncation\<close>








section \<open>Properties of stripping the required keys\<close>


















end
